theory Spec2Isabelle
  imports Main "HOL-Library.Sublist"
begin

section \<open>The test server of the handler package\<close>

text \<open>
  This theory embeds \<^verbatim>\<open>graphql/handler/testserver/testserver.go\<close>: the executable
  schema that \<^verbatim>\<open>New\<close> and \<^verbatim>\<open>NewError\<close> hand to the handler, and the methods of
  \<^verbatim>\<open>TestServer\<close>.

  A \<^verbatim>\<open>graphql.ResponseHandler\<close> is a Go closure over mutable local variables. It
  is embedded by defunctionalisation: one constructor per function literal of the
  source, carrying the variables the literal captures and writes, and one function per
  literal that takes those variables and returns them updated.
\<close>

subsection \<open>Data\<close>

text \<open>
  \<^verbatim>\<open>ast.Operation\<close> is a string type with three named constants. The switch of
  \<^verbatim>\<open>ExecFunc\<close> compares against the constants and has a default branch;
  \<open>OtherOperation\<close> stands for every value that is none of the three constants.
\<close>

datatype Operation = Query | Mutation | Subscription | OtherOperation string

text \<open>
  The fields of \<^verbatim>\<open>graphql.OperationContext\<close> that the test server reads:
  \<^verbatim>\<open>opCtx.RawQuery\<close> and \<^verbatim>\<open>opCtx.Operation.Operation\<close>. Its third field in use,
  \<^verbatim>\<open>ResolverMiddleware\<close>, is a function value that receives a context; its
  declaration is not among the files, and it is passed to the handlers as a parameter
  (see \<open>Middleware\<close> below).
\<close>

record OperationContext =
  RawQuery :: string
  Operation :: Operation

text \<open>A field definition of the parsed schema (\<^verbatim>\<open>ast.FieldDefinition\<close>).\<close>

record FieldDefinition =
  fdName :: string
  fdArguments :: "(string \<times> string) list"
  fdType :: string

text \<open>\<^verbatim>\<open>ast.Field\<close> as the source fills it: name, alias and definition.\<close>

record Field =
  Name :: string
  Alias :: string
  Definition :: "FieldDefinition option"

record FieldContext =
  Object :: string
  Field :: Field

text \<open>
  A \<^verbatim>\<open>context.Context\<close> as far as the test server looks into it: the operation
  context it carries and the field contexts pushed onto it, innermost first. Whether
  the context is done is not a field of it: it is part of what a \<^verbatim>\<open>select\<close>
  finds (see \<open>Channels\<close>) and shows in the branch that is taken (see
  \<open>select_case\<close>).
\<close>

record Context =
  ctxOperation :: OperationContext
  ctxFields :: "FieldContext list"

text \<open>
  Modelled from the spec: an entry of a response's error list, whose declaration is not
  among the files (ErrorEntry: the message plus the FieldContext path active when it
  was recorded).
\<close>

record Error =
  Message :: string
  Path :: "FieldContext list"

text \<open>
  Modelled from the spec: \<^verbatim>\<open>graphql.Response\<close>, whose declaration is not among the
  files (ResponseEnvelope: a payload, an optional hasNext and an ordered sequence of
  error entries). The source sets \<open>Data\<close>, the raw JSON text (\<open>[]\<close> when the literal
  leaves the field out), and \<open>HasNext\<close>, a \<^verbatim>\<open>*bool\<close>.
\<close>

record Response =
  Data :: string
  HasNext :: "bool option"
  Errors :: "Error list"

text \<open>
  What is mutable outside a handler while it runs: the errors recorded through the
  side channel of the context, and everything else a resolver middleware may change
  (\<open>outside\<close>, of any type).
\<close>

record 'w World =
  recorded :: "Error list"
  outside :: 'w

text \<open>
  A value of Go's \<^verbatim>\<open>any\<close> as the type assertion \<^verbatim>\<open>res.(*graphql.Response)\<close>
  sees it: a \<^verbatim>\<open>*graphql.Response\<close> (possibly a nil pointer), or anything else
  (the nil interface included).
\<close>

datatype any = AnyResponse "Response option" | AnyOther

text \<open>A call either returns or panics.\<close>

datatype 'a outcome = Return 'a | Panic string

text \<open>
  \<^verbatim>\<open>graphql.Resolver\<close> is \<^verbatim>\<open>func(ctx) (any, error)\<close>; the resolver middleware is
  \<^verbatim>\<open>func(ctx, next Resolver) (any, error)\<close>. Both may have effects, which are
  threaded through the world. An error is its message.
\<close>

type_synonym 'w Resolver = "Context \<Rightarrow> 'w World \<Rightarrow> (any \<times> string option) \<times> 'w World"

type_synonym 'w Middleware = "Context \<Rightarrow> 'w Resolver \<Rightarrow> 'w World \<Rightarrow> (any \<times> string option) \<times> 'w World"

text \<open>
  The three communications of the \<^verbatim>\<open>select\<close> statements in the handlers:
  \<^verbatim>\<open><-ctx.Done()\<close>, \<^verbatim>\<open><-next\<close> and \<^verbatim>\<open><-completeSubscription\<close>. A handler that
  selects is suspended until one of them can proceed; the branch that was taken is the
  input of the invocation. The channels are unbuffered and carry \<^verbatim>\<open>struct{}\<close>, so a
  branch taken on \<open>Next\<close> or \<open>CompleteSubscription\<close> consumes exactly one send.
\<close>

datatype select_case = CtxDone | Next | CompleteSubscription

text \<open>
  The input of one invocation of a handler: the context argument and, for a handler
  that selects, the branch taken.
\<close>

record Invocation =
  inCtx :: Context
  fired :: select_case

text \<open>
  The function literals returned by \<^verbatim>\<open>ExecFunc\<close>, with the variables they capture:
  \<^item> \<open>DeferHandler initialResponse\<close>: the literal of lines 50 to 71;
  \<^item> \<open>QueryHandler ran_flag\<close>: the literal of lines 73 to 97, with its variable
    \<^verbatim>\<open>ran\<close>;
  \<^item> \<open>SubscriptionHandler\<close>: the literal of lines 101 to 112, which captures no
    variable that it writes;
  \<^item> \<open>OneShotHandler resp oneshot\<close>: the result of \<^verbatim>\<open>graphql.OneShot(resp)\<close>;
  \<^item> \<open>ErrorQueryHandler ran_flag\<close>: the literal of lines 148 to 159 in
    \<^verbatim>\<open>NewError\<close>, with its variable \<^verbatim>\<open>ran\<close>.
\<close>

datatype ResponseHandler =
    DeferHandler bool
  | QueryHandler bool
  | SubscriptionHandler
  | OneShotHandler Response bool
  | ErrorQueryHandler bool

record TestServer =
  complexity :: int

subsection \<open>Functions of the graphql package and of the Go library\<close>

text \<open>\<^verbatim>\<open>strings.Contains(s, substr)\<close>: \<open>substr\<close> occurs in \<open>s\<close> at some position.\<close>

fun Contains :: "string \<Rightarrow> string \<Rightarrow> bool" where
  "Contains [] substr = (substr = [])"
| "Contains (c # s) substr = (prefix substr (c # s) \<or> Contains s substr)"

text \<open>\<^verbatim>\<open>FieldList.ForName\<close>: the first definition of that name, or nil.\<close>

fun ForName :: "FieldDefinition list \<Rightarrow> string \<Rightarrow> FieldDefinition option" where
  "ForName [] name = None"
| "ForName (f # fs) name = (if fdName f = name then Some f else ForName fs name)"

text \<open>
  Modelled from the spec: \<^verbatim>\<open>graphql.GetOperationContext\<close>, whose source is not
  among the files. The operation context is the record the context carries.
\<close>

definition GetOperationContext :: "Context \<Rightarrow> OperationContext" where
  "GetOperationContext ctx = ctxOperation ctx"

text \<open>
  Modelled from the spec: \<^verbatim>\<open>graphql.WithFieldContext\<close>
  (\<open>withFieldContext(ctx, fieldCtx) -> ctx'\<close>, which scopes subsequent error
  attribution): the returned context has the field context pushed.
\<close>

definition WithFieldContext :: "Context \<Rightarrow> FieldContext \<Rightarrow> Context" where
  "WithFieldContext ctx fc = ctx\<lparr>ctxFields := fc # ctxFields ctx\<rparr>"

text \<open>
  Modelled from the spec: \<^verbatim>\<open>graphql.AddError\<close> (\<open>addError(ctx, err)\<close> appends an
  ErrorEntry to the envelope currently being assembled; an ErrorEntry is the message
  plus the FieldContext path active when it was recorded).
\<close>

definition AddError :: "Context \<Rightarrow> string \<Rightarrow> 'w World \<Rightarrow> 'w World" where
  "AddError ctx err w = w\<lparr>recorded := recorded w @ [\<lparr>Message = err, Path = ctxFields ctx\<rparr>]\<rparr>"

text \<open>
  Modelled from the spec: \<^verbatim>\<open>graphql.ErrorResponse\<close>, the envelope that carries one
  ErrorEntry with the given message and no payload.
\<close>

definition ErrorResponse :: "Context \<Rightarrow> string \<Rightarrow> Response" where
  "ErrorResponse ctx message =
     \<lparr>Data = [], HasNext = None, Errors = [\<lparr>Message = message, Path = ctxFields ctx\<rparr>]\<rparr>"

text \<open>
  Modelled from the spec: \<^verbatim>\<open>graphql.OneShot\<close>, the producer whose first invocation
  yields the given envelope and whose every later invocation yields terminal.
\<close>

definition OneShot :: "Response \<Rightarrow> ResponseHandler" where
  "OneShot resp = OneShotHandler resp False"

text \<open>
  Modelled from the spec: the handler that \<^verbatim>\<open>graphql.OneShot\<close> returns, on its flag:
  the envelope while the flag is not set, terminal once it is.
\<close>

definition oneShotHandler :: "Response \<Rightarrow> bool \<Rightarrow> Response option \<times> bool" where
  "oneShotHandler resp oneshot = (if oneshot then (None, oneshot) else (Some resp, True))"

text \<open>
  Modelled from the spec: the merge of the side channel into an envelope, whose source
  is not among the files. The errors recorded through \<open>AddError\<close> are appended to the
  error list of the envelope; the payload is left as it is.
\<close>

definition mergeErrors :: "Response \<Rightarrow> 'w World \<Rightarrow> Response" where
  "mergeErrors resp w = resp\<lparr>Errors := Errors resp @ recorded w\<rparr>"

subsection \<open>The schema and the payloads\<close>

text \<open>
  \<^verbatim>\<open>schema.Types["Query"].Fields\<close> of the schema that \<^verbatim>\<open>New\<close> loads: the two
  fields the source declares, followed by the introspection fields \<^verbatim>\<open>__schema\<close> and
  \<^verbatim>\<open>__type\<close> that the loader appends to the query type. No other entry of
  \<^verbatim>\<open>schema.Types\<close> is looked up by the test server.
\<close>

definition schemaQueryFields :: "FieldDefinition list" where
  "schemaQueryFields =
     [\<lparr>fdName = ''name'', fdArguments = [], fdType = ''String!''\<rparr>,
      \<lparr>fdName = ''find'', fdArguments = [(''id'', ''Int!'')], fdType = ''String!''\<rparr>,
      \<lparr>fdName = ''__schema'', fdArguments = [], fdType = ''__Schema!''\<rparr>,
      \<lparr>fdName = ''__type'', fdArguments = [(''name'', ''String!'')], fdType = ''__Type''\<rparr>]"

definition dataNameNull :: string where
  \<open>dataNameNull = ''{"name":null}''\<close>

definition dataNameTest :: string where
  \<open>dataNameTest = ''{"name":"test"}''\<close>

definition dataNull :: string where
  "dataNull = ''null''"

subsection \<open>Resolver middlewares\<close>

text \<open>
  Values for the middleware parameter. \<open>directMiddleware\<close> calls the resolver it is
  given and does nothing else. \<open>reportingMiddleware\<close> records an error through the
  side channel before it calls the resolver, \<open>failingMiddleware\<close> returns an error
  and \<open>partialMiddleware\<close> an envelope of its own, without calling the resolver, as
  an interceptor around a field may.
\<close>

definition directMiddleware :: "'w Middleware" where
  "directMiddleware ctx next = next ctx"

definition reportingMiddleware :: "'w Middleware" where
  "reportingMiddleware ctx next w = next ctx (AddError ctx ''field error'' w)"

definition failingMiddleware :: "'w Middleware" where
  "failingMiddleware ctx next w = ((AnyOther, Some ''field failed''), w)"

definition partialMiddleware :: "'w Middleware" where
  "partialMiddleware ctx next w =
     ((AnyResponse (Some \<lparr>Data = dataNameNull, HasNext = Some True, Errors = []\<rparr>), None), w)"

subsection \<open>The handlers of New\<close>

text \<open>
  Lines 50 to 71. The handler selects on the context that \<^verbatim>\<open>ExecFunc\<close> received
  (not on its own argument) and on the two channels of the server.
\<close>

fun deferHandler :: "bool \<Rightarrow> select_case \<Rightarrow> Response option \<times> bool" where
  "deferHandler initialResponse CtxDone = (None, initialResponse)"
| "deferHandler initialResponse Next =
     (if initialResponse
      then (Some \<lparr>Data = dataNameNull, HasNext = Some True, Errors = []\<rparr>, False)
      else (Some \<lparr>Data = dataNameTest, HasNext = Some False, Errors = []\<rparr>, initialResponse))"
| "deferHandler initialResponse CompleteSubscription = (None, initialResponse)"

text \<open>
  Lines 73 to 97. The field context is pushed onto the argument of the invocation, the
  middleware of the operation context is called with that context and with the
  resolver of lines 90 to 92, an error makes the handler panic, and the result is
  asserted to be a \<^verbatim>\<open>*graphql.Response\<close>.
\<close>

definition queryFieldContext :: FieldContext where
  "queryFieldContext =
     \<lparr>Object = ''Query'',
      Field = \<lparr>Name = ''name'', Alias = ''name'',
               Definition = ForName schemaQueryFields ''name''\<rparr>\<rparr>"

definition queryResolver :: "'w Resolver" where
  "queryResolver ctx w =
     ((AnyResponse (Some \<lparr>Data = dataNameTest, HasNext = None, Errors = []\<rparr>), None), w)"

definition queryHandler ::
  "'w Middleware \<Rightarrow> bool \<Rightarrow> Context \<Rightarrow> 'w World \<Rightarrow> Response option outcome \<times> bool \<times> 'w World" where
  "queryHandler ResolverMiddleware ran_flag ctx w =
     (if ran_flag then (Return None, ran_flag, w)
      else
        (case ResolverMiddleware (WithFieldContext ctx queryFieldContext) queryResolver w of
           ((res, Some err), w') \<Rightarrow> (Panic err, True, w')
         | ((AnyResponse r, None), w') \<Rightarrow> (Return r, True, w')
         | ((AnyOther, None), w') \<Rightarrow> (Panic ''interface conversion'', True, w')))"

text \<open>Lines 101 to 112.\<close>

fun subscriptionHandler :: "select_case \<Rightarrow> Response option" where
  "subscriptionHandler CtxDone = None"
| "subscriptionHandler Next = Some \<lparr>Data = dataNameTest, HasNext = None, Errors = []\<rparr>"
| "subscriptionHandler CompleteSubscription = None"

text \<open>\<^verbatim>\<open>ExecFunc\<close> of \<^verbatim>\<open>New\<close>, lines 42 to 116.\<close>

definition ExecFunc :: "Context \<Rightarrow> ResponseHandler" where
  "ExecFunc ctx =
     (let opCtx = GetOperationContext ctx in
      case Operation opCtx of
        Query \<Rightarrow>
          if Contains (RawQuery opCtx) ''@defer'' then DeferHandler True
          else QueryHandler False
      | Mutation \<Rightarrow> OneShot (ErrorResponse ctx ''mutations are not supported'')
      | Subscription \<Rightarrow> SubscriptionHandler
      | OtherOperation x \<Rightarrow> OneShot (ErrorResponse ctx ''unsupported GraphQL operation''))"

subsection \<open>The handlers of NewError\<close>

text \<open>Lines 148 to 159.\<close>

definition errorQueryHandler ::
  "bool \<Rightarrow> Context \<Rightarrow> 'w World \<Rightarrow> Response option \<times> bool \<times> 'w World" where
  "errorQueryHandler ran_flag ctx w =
     (if ran_flag then (None, ran_flag, w)
      else (Some \<lparr>Data = dataNull, HasNext = None, Errors = []\<rparr>, True,
            AddError ctx ''resolver error'' w))"

text \<open>\<^verbatim>\<open>ExecFunc\<close> of \<^verbatim>\<open>NewError\<close>, lines 143 to 167.\<close>

definition ExecFuncError :: "Context \<Rightarrow> ResponseHandler" where
  "ExecFuncError ctx =
     (let opCtx = GetOperationContext ctx in
      case Operation opCtx of
        Query \<Rightarrow> ErrorQueryHandler False
      | Mutation \<Rightarrow> OneShot (ErrorResponse ctx ''mutations are not supported'')
      | Subscription \<Rightarrow> OneShot (ErrorResponse ctx ''subscription are not supported'')
      | OtherOperation x \<Rightarrow> OneShot (ErrorResponse ctx ''unsupported GraphQL operation''))"

subsection \<open>Invoking a handler\<close>

text \<open>
  One call \<^verbatim>\<open>handler(ctx)\<close>: the literal behind the handler runs on the variables it
  captured and leaves them updated.
\<close>

fun invoke ::
  "'w Middleware \<Rightarrow> ResponseHandler \<Rightarrow> Invocation \<Rightarrow> 'w World \<Rightarrow>
     Response option outcome \<times> ResponseHandler \<times> 'w World" where
  "invoke rm (DeferHandler initialResponse) i w =
     (case deferHandler initialResponse (fired i) of
        (r, initialResponse') \<Rightarrow> (Return r, DeferHandler initialResponse', w))"
| "invoke rm (QueryHandler ran_flag) i w =
     (case queryHandler rm ran_flag (inCtx i) w of
        (r, ran_flag', w') \<Rightarrow> (r, QueryHandler ran_flag', w'))"
| "invoke rm SubscriptionHandler i w = (Return (subscriptionHandler (fired i)), SubscriptionHandler, w)"
| "invoke rm (OneShotHandler resp oneshot) i w =
     (case oneShotHandler resp oneshot of
        (r, oneshot') \<Rightarrow> (Return r, OneShotHandler resp oneshot', w))"
| "invoke rm (ErrorQueryHandler ran_flag) i w =
     (case errorQueryHandler ran_flag (inCtx i) w of
        (r, ran_flag', w') \<Rightarrow> (Return r, ErrorQueryHandler ran_flag', w'))"

text \<open>
  Successive invocations of one handler, one per input, each on the state the
  previous one left: the results in order, the handler and the world at the end.
\<close>

fun invocations ::
  "'w Middleware \<Rightarrow> ResponseHandler \<Rightarrow> Invocation list \<Rightarrow> 'w World \<Rightarrow>
     Response option outcome list \<times> ResponseHandler \<times> 'w World" where
  "invocations rm h [] w = ([], h, w)"
| "invocations rm h (i # is) w =
     (case invoke rm h i w of
        (r, h', w') \<Rightarrow>
          (case invocations rm h' is w' of
             (rs, h'', w'') \<Rightarrow> (r # rs, h'', w'')))"

text \<open>An invocation in which the given branch of the select is taken.\<close>

definition on_case :: "select_case \<Rightarrow> Context \<Rightarrow> Invocation" where
  "on_case c ctx = \<lparr>inCtx = ctx, fired = c\<rparr>"

text \<open>
  What the select of a handler finds when it is evaluated: whether the context that
  \<^verbatim>\<open>ExecFunc\<close> received is done, and how many senders wait on each of the two
  channels (calls of \<^verbatim>\<open>SendNextSubscriptionMessage\<close> and of
  \<^verbatim>\<open>SendCompleteSubscriptionMessage\<close> that are in their send): the triggers that
  are pending. The branch on \<^verbatim>\<open>ctx.Done()\<close> can proceed when the context is done, a
  receive when a sender waits on its channel. Taking a receive releases one sender;
  a context that is done stays done.
\<close>

record Channels =
  ctxDone :: bool
  nextSenders :: nat
  completeSenders :: nat

fun canProceed :: "Channels \<Rightarrow> select_case \<Rightarrow> bool" where
  "canProceed ch CtxDone = ctxDone ch"
| "canProceed ch Next = (0 < nextSenders ch)"
| "canProceed ch CompleteSubscription = (0 < completeSenders ch)"

fun taken :: "select_case \<Rightarrow> Channels \<Rightarrow> Channels" where
  "taken CtxDone ch = ch"
| "taken Next ch = ch\<lparr>nextSenders := nextSenders ch - 1\<rparr>"
| "taken CompleteSubscription ch = ch\<lparr>completeSenders := completeSenders ch - 1\<rparr>"

text \<open>
  The select statements of lines 51 to 70 and 102 to 111 list their three branches
  with no default and no priority: Go takes any one of the branches that can proceed,
  and the handler stays suspended while none can. \<open>selectInvoke\<close> gives every result
  an invocation of a selecting handler may have on the given channels, one for each
  branch that can proceed, with the channels as the branch leaves them; the list is
  empty while the handler is suspended.
\<close>

definition selectable :: "Channels \<Rightarrow> select_case list" where
  "selectable ch = filter (canProceed ch) [CtxDone, Next, CompleteSubscription]"

definition selectInvoke ::
  "'w Middleware \<Rightarrow> ResponseHandler \<Rightarrow> Context \<Rightarrow> Channels \<Rightarrow> 'w World \<Rightarrow>
     ((Response option outcome \<times> ResponseHandler \<times> 'w World) \<times> Channels) list" where
  "selectInvoke rm h ctx ch w =
     map (\<lambda>c. (invoke rm h (on_case c ctx) w, taken c ch)) (selectable ch)"

text \<open>
  Modelled from the spec: the assembly of the envelope of one invocation, whose source
  is not among the files. The side channel is empty when the invocation starts; the
  errors recorded through \<open>AddError\<close> while the handler runs are merged into the
  envelope it returns. A terminal result and a panic pass unchanged.
\<close>

definition respond ::
  "'w Middleware \<Rightarrow> ResponseHandler \<Rightarrow> Invocation \<Rightarrow> 'w World \<Rightarrow>
     Response option outcome \<times> ResponseHandler \<times> 'w World" where
  "respond rm h i w =
     (case invoke rm h i (w\<lparr>recorded := []\<rparr>) of
        (Return (Some resp), h', w') \<Rightarrow> (Return (Some (mergeErrors resp w')), h', w')
      | (r, h', w') \<Rightarrow> (r, h', w'))"

subsection \<open>The complexity of the test server\<close>

text \<open>\<^verbatim>\<open>New\<close> leaves \<^verbatim>\<open>complexity\<close> at its zero value.\<close>

definition New :: TestServer where
  "New = \<lparr>complexity = 0\<rparr>"

text \<open>Lines 120 to 122: the function reads the field of the server when it is called.\<close>

definition ComplexityFunc ::
  "TestServer \<Rightarrow> Context \<Rightarrow> string \<Rightarrow> string \<Rightarrow> int \<Rightarrow> (string \<rightharpoonup> any) \<Rightarrow> int \<times> bool" where
  "ComplexityFunc srv ctx typeName fieldName childComplexity args = (complexity srv, True)"

definition SetCalculatedComplexity :: "TestServer \<Rightarrow> int \<Rightarrow> TestServer" where
  "SetCalculatedComplexity s c = s\<lparr>complexity := c\<rparr>"

subsection \<open>Sample operations\<close>

text \<open>Contexts of one operation of each kind, with no field context pushed, and a world
  with nothing recorded.\<close>

definition plainQueryCtx :: Context where
  "plainQueryCtx = \<lparr>ctxOperation = \<lparr>RawQuery = ''{ name }'', Operation = Query\<rparr>, ctxFields = []\<rparr>"

definition deferQueryCtx :: Context where
  "deferQueryCtx =
     \<lparr>ctxOperation = \<lparr>RawQuery = ''{ ... @defer { name } }'', Operation = Query\<rparr>, ctxFields = []\<rparr>"

definition subscriptionCtx :: Context where
  "subscriptionCtx =
     \<lparr>ctxOperation = \<lparr>RawQuery = ''subscription { name }'', Operation = Subscription\<rparr>, ctxFields = []\<rparr>"

definition mutationCtx :: Context where
  "mutationCtx =
     \<lparr>ctxOperation = \<lparr>RawQuery = ''mutation { name }'', Operation = Mutation\<rparr>, ctxFields = []\<rparr>"

definition otherCtx :: Context where
  "otherCtx =
     \<lparr>ctxOperation = \<lparr>RawQuery = ''fragment { name }'', Operation = OtherOperation ''fragment''\<rparr>,
      ctxFields = []\<rparr>"

definition emptyWorld :: "unit World" where
  "emptyWorld = \<lparr>recorded = [], outside = ()\<rparr>"

section \<open>Properties\<close>

subsection \<open>Auxiliary facts\<close>

lemma Contains_sublist: "Contains s substr \<longleftrightarrow> sublist substr s"
  by (induction s) (simp_all add: sublist_Cons_right)

lemma Contains_occurs: "Contains s substr \<longleftrightarrow> (\<exists>ps ss. s = ps @ substr @ ss)"
  by (simp add: Contains_sublist sublist_def)

lemma invocations_subscription_next:
  "invocations rm SubscriptionHandler (map (on_case Next) ctxs) w =
     (replicate (length ctxs) (Return (Some \<lparr>Data = dataNameTest, HasNext = None, Errors = []\<rparr>)),
      SubscriptionHandler, w)"
  by (induction ctxs) (simp_all add: on_case_def)

lemma invocations_defer_final:
  "invocations rm (DeferHandler False) (map (on_case Next) ctxs) w =
     (replicate (length ctxs) (Return (Some \<lparr>Data = dataNameTest, HasNext = Some False, Errors = []\<rparr>)),
      DeferHandler False, w)"
  by (induction ctxs) (simp_all add: on_case_def)

lemma invocations_oneshot_done:
  "invocations rm (OneShotHandler resp True) is w =
     (replicate (length is) (Return None), OneShotHandler resp True, w)"
  by (induction "is") (simp_all add: oneShotHandler_def)

lemma invocations_query_ran:
  "invocations rm (QueryHandler True) is w =
     (replicate (length is) (Return None), QueryHandler True, w)"
  by (induction "is") (simp_all add: queryHandler_def)

lemma invoke_query_sets_ran:
  "\<exists>r w'. invoke rm (QueryHandler ran_flag) i w = (r, QueryHandler True, w')"
  by (simp add: queryHandler_def split: prod.splits option.splits any.splits)

lemma invoke_query_first:
  "\<exists>r. invoke rm (QueryHandler False) i w =
     (r, QueryHandler True,
      snd (rm (WithFieldContext (inCtx i) queryFieldContext) queryResolver w))"
  by (simp add: queryHandler_def split: prod.splits option.splits any.splits)

lemma deferQueryCtx_marked:
  "\<exists>ps ss. RawQuery (GetOperationContext deferQueryCtx) = ps @ ''@defer'' @ ss"
  unfolding Contains_occurs [symmetric]
  by (simp add: deferQueryCtx_def GetOperationContext_def)

lemma plainQueryCtx_unmarked:
  "\<not> (\<exists>ps ss. RawQuery (GetOperationContext plainQueryCtx) = ps @ ''@defer'' @ ss)"
  unfolding Contains_occurs [symmetric]
  by (simp add: plainQueryCtx_def GetOperationContext_def)

subsection \<open>The incremental handler\<close>

text \<open>
  Claim C1, as the specification states it: for a query whose text contains
  \<^verbatim>\<open>@defer\<close>, two continuation triggers yield two envelopes, and a third
  continuation trigger yields terminal with no envelope. The last part fails: the
  handler keeps no state beyond \<^verbatim>\<open>initialResponse\<close>, so the third trigger taken
  yields the final envelope once more.
\<close>

theorem defer_third_trigger_counterexample:
  "fst (invocations directMiddleware (ExecFunc deferQueryCtx)
          [on_case Next deferQueryCtx, on_case Next deferQueryCtx, on_case Next deferQueryCtx]
          emptyWorld) =
     [Return (Some \<lparr>Data = dataNameNull, HasNext = Some True, Errors = []\<rparr>),
      Return (Some \<lparr>Data = dataNameTest, HasNext = Some False, Errors = []\<rparr>),
      Return (Some \<lparr>Data = dataNameTest, HasNext = Some False, Errors = []\<rparr>)] \<and>
   Return (Some \<lparr>Data = dataNameTest, HasNext = Some False, Errors = []\<rparr>) \<noteq> Return None"
  by (simp add: ExecFunc_def deferQueryCtx_def GetOperationContext_def on_case_def)

text \<open>
  Claim C1, amended: for a query whose text contains \<^verbatim>\<open>@defer\<close>, the handler driven
  by continuation triggers yields first an envelope with \<open>HasNext\<close> true and the
  payload with the null name, then an envelope with \<open>HasNext\<close> false and the final
  payload; every continuation trigger taken after that yields the second envelope
  again.
\<close>

theorem defer_two_parts_then_repeats:
  assumes "Operation (GetOperationContext ctx) = Query"
      and "\<exists>ps ss. RawQuery (GetOperationContext ctx) = ps @ ''@defer'' @ ss"
  shows "invocations rm (ExecFunc ctx) (map (on_case Next) (c1 # c2 # cs)) w =
     (Return (Some \<lparr>Data = dataNameNull, HasNext = Some True, Errors = []\<rparr>)
        # Return (Some \<lparr>Data = dataNameTest, HasNext = Some False, Errors = []\<rparr>)
        # replicate (length cs) (Return (Some \<lparr>Data = dataNameTest, HasNext = Some False, Errors = []\<rparr>)),
      DeferHandler False, w)"
proof -
  have "ExecFunc ctx = DeferHandler True"
    using assms by (simp add: ExecFunc_def Contains_occurs)
  then show ?thesis
    by (simp add: on_case_def invocations_defer_final)
qed

theorem defer_two_parts_then_repeats_witness:
  "invocations directMiddleware (ExecFunc deferQueryCtx)
     (map (on_case Next) [deferQueryCtx, deferQueryCtx]) emptyWorld =
     ([Return (Some \<lparr>Data = dataNameNull, HasNext = Some True, Errors = []\<rparr>),
       Return (Some \<lparr>Data = dataNameTest, HasNext = Some False, Errors = []\<rparr>)],
      DeferHandler False, emptyWorld)"
proof -
  have q: "Operation (GetOperationContext deferQueryCtx) = Query"
    by (simp add: deferQueryCtx_def GetOperationContext_def)
  show ?thesis
    using defer_two_parts_then_repeats [OF q deferQueryCtx_marked,
        of directMiddleware deferQueryCtx deferQueryCtx "[]" emptyWorld]
    by simp
qed

subsection \<open>Terminal results\<close>

text \<open>
  Claim C2, as the specification states it: for every handler the selector returns,
  once an invocation returns terminal, every later invocation returns terminal. It
  fails for the streaming and the incremental handler: after a completion trigger has
  made them return nil, a continuation trigger makes them return an envelope.
\<close>

theorem terminal_not_sticky_counterexample:
  "fst (invocations directMiddleware (ExecFunc subscriptionCtx)
          [on_case CompleteSubscription subscriptionCtx, on_case Next subscriptionCtx] emptyWorld) =
     [Return None, Return (Some \<lparr>Data = dataNameTest, HasNext = None, Errors = []\<rparr>)] \<and>
   fst (invocations directMiddleware (ExecFunc deferQueryCtx)
          [on_case CompleteSubscription deferQueryCtx, on_case Next deferQueryCtx] emptyWorld) =
     [Return None, Return (Some \<lparr>Data = dataNameNull, HasNext = Some True, Errors = []\<rparr>)]"
  by (simp add: ExecFunc_def subscriptionCtx_def deferQueryCtx_def GetOperationContext_def on_case_def)

text \<open>
  Claim C2, amended: for the single-shot handler, every invocation after the first
  returns terminal, whatever the first one did and whatever arrives afterwards. The
  incremental and the streaming handler return terminal exactly when the branch taken
  is cancellation or the completion trigger, which leaves them as they were; an
  invocation that takes a continuation trigger returns an envelope, also after a
  terminal result.
\<close>

theorem terminal_sticky_for_single_shot_only:
  "tl (fst (invocations rm (QueryHandler ran_flag) (i # is) w)) = replicate (length is) (Return None) \<and>
   (h = DeferHandler initialResponse \<or> h = SubscriptionHandler \<longrightarrow>
      (fired i \<noteq> Next \<longrightarrow> invoke rm h i w = (Return None, h, w)) \<and>
      (fired i = Next \<longrightarrow> fst (invoke rm h i w) \<noteq> Return None))"
proof -
  obtain r w' where "invoke rm (QueryHandler ran_flag) i w = (r, QueryHandler True, w')"
    using invoke_query_sets_ran by blast
  then have "tl (fst (invocations rm (QueryHandler ran_flag) (i # is) w)) =
      replicate (length is) (Return None)"
    by (simp add: invocations_query_ran)
  moreover have "h = DeferHandler initialResponse \<or> h = SubscriptionHandler \<longrightarrow>
      (fired i \<noteq> Next \<longrightarrow> invoke rm h i w = (Return None, h, w)) \<and>
      (fired i = Next \<longrightarrow> fst (invoke rm h i w) \<noteq> Return None)"
    by (cases "fired i") auto
  ultimately show ?thesis by simp
qed

theorem terminal_sticky_for_single_shot_only_witness:
  "tl (fst (invocations directMiddleware (QueryHandler False)
         [on_case Next plainQueryCtx, on_case Next plainQueryCtx, on_case Next plainQueryCtx] emptyWorld)) =
     [Return None, Return None] \<and>
   invoke directMiddleware SubscriptionHandler (on_case CompleteSubscription subscriptionCtx) emptyWorld =
     (Return None, SubscriptionHandler, emptyWorld) \<and>
   fst (invoke directMiddleware SubscriptionHandler (on_case Next subscriptionCtx) emptyWorld) \<noteq> Return None \<and>
   invoke directMiddleware (DeferHandler False) (on_case CtxDone deferQueryCtx) emptyWorld =
     (Return None, DeferHandler False, emptyWorld) \<and>
   fst (invoke directMiddleware (DeferHandler False) (on_case Next deferQueryCtx) emptyWorld) \<noteq> Return None"
  using terminal_sticky_for_single_shot_only
      [of directMiddleware False "on_case Next plainQueryCtx"
          "[on_case Next plainQueryCtx, on_case Next plainQueryCtx]" emptyWorld
          SubscriptionHandler True]
    terminal_sticky_for_single_shot_only
      [of directMiddleware False "on_case CompleteSubscription subscriptionCtx" "[]" emptyWorld
          SubscriptionHandler True]
    terminal_sticky_for_single_shot_only
      [of directMiddleware False "on_case CtxDone deferQueryCtx" "[]" emptyWorld
          "DeferHandler False" False]
    terminal_sticky_for_single_shot_only
      [of directMiddleware False "on_case Next deferQueryCtx" "[]" emptyWorld
          "DeferHandler False" False]
  by (simp add: on_case_def)

subsection \<open>The streaming handler\<close>

text \<open>
  Claim C3: each continuation trigger the streaming handler takes yields exactly one
  envelope, with the fixed payload and no \<open>HasNext\<close>; a run of continuation triggers
  yields as many envelopes, all equal, and none is lost or merged.
\<close>

theorem streaming_one_envelope_per_trigger:
  "invoke rm SubscriptionHandler (on_case Next c) w =
     (Return (Some \<lparr>Data = dataNameTest, HasNext = None, Errors = []\<rparr>), SubscriptionHandler, w) \<and>
   (Operation (GetOperationContext ctx) = Subscription \<longrightarrow>
      invocations rm (ExecFunc ctx) (map (on_case Next) ctxs) w =
        (replicate (length ctxs) (Return (Some \<lparr>Data = dataNameTest, HasNext = None, Errors = []\<rparr>)),
         SubscriptionHandler, w))"
  by (simp add: invocations_subscription_next ExecFunc_def on_case_def)

theorem streaming_one_envelope_per_trigger_witness:
  "invocations directMiddleware (ExecFunc subscriptionCtx)
     [on_case Next subscriptionCtx, on_case Next subscriptionCtx, on_case Next subscriptionCtx] emptyWorld =
     ([Return (Some \<lparr>Data = dataNameTest, HasNext = None, Errors = []\<rparr>),
       Return (Some \<lparr>Data = dataNameTest, HasNext = None, Errors = []\<rparr>),
       Return (Some \<lparr>Data = dataNameTest, HasNext = None, Errors = []\<rparr>)],
      SubscriptionHandler, emptyWorld)"
  using streaming_one_envelope_per_trigger
    [of directMiddleware subscriptionCtx emptyWorld subscriptionCtx
        "[subscriptionCtx, subscriptionCtx, subscriptionCtx]"]
  by (simp add: subscriptionCtx_def GetOperationContext_def)

subsection \<open>Cancellation\<close>

text \<open>
  Claim C4, as the specification states it: when the operation's context is cancelled,
  an invocation of the incremental or of the streaming handler returns terminal and no
  envelope, however many continuation triggers are pending at that moment. It fails
  when a continuation trigger is pending: the select has no priority, both branches can
  proceed, and the invocation may take the trigger and return an envelope.
\<close>

theorem cancellation_with_pending_trigger_counterexample:
  "selectInvoke directMiddleware (ExecFunc subscriptionCtx) subscriptionCtx
     \<lparr>ctxDone = True, nextSenders = 1, completeSenders = 0\<rparr> emptyWorld =
     [((Return None, SubscriptionHandler, emptyWorld),
       \<lparr>ctxDone = True, nextSenders = 1, completeSenders = 0\<rparr>),
      ((Return (Some \<lparr>Data = dataNameTest, HasNext = None, Errors = []\<rparr>), SubscriptionHandler, emptyWorld),
       \<lparr>ctxDone = True, nextSenders = 0, completeSenders = 0\<rparr>)] \<and>
   selectInvoke directMiddleware (ExecFunc deferQueryCtx) deferQueryCtx
     \<lparr>ctxDone = True, nextSenders = 1, completeSenders = 0\<rparr> emptyWorld =
     [((Return None, DeferHandler True, emptyWorld),
       \<lparr>ctxDone = True, nextSenders = 1, completeSenders = 0\<rparr>),
      ((Return (Some \<lparr>Data = dataNameNull, HasNext = Some True, Errors = []\<rparr>), DeferHandler False, emptyWorld),
       \<lparr>ctxDone = True, nextSenders = 0, completeSenders = 0\<rparr>)]"
  by (simp add: selectInvoke_def selectable_def ExecFunc_def subscriptionCtx_def deferQueryCtx_def
        GetOperationContext_def on_case_def)

text \<open>
  Claim C4, amended: for the incremental and the streaming handler, in every state,
  when the operation's context is cancelled the invocation can return terminal with no
  envelope, leaving the handler and every pending trigger as they were. It must do so
  when no continuation trigger is pending, and so when the cancellation reaches a
  handler that is suspended: then terminal is the only result. When a continuation
  trigger is pending together with the cancellation, the invocation may instead take
  the trigger and return an envelope.
\<close>

theorem cancellation_terminal_unless_trigger_pending:
  assumes "h = DeferHandler initialResponse \<or> h = SubscriptionHandler"
  shows "(ctxDone ch \<longrightarrow>
            ((Return None, h, w), ch) \<in> set (selectInvoke rm h ctx ch w) \<and>
            (nextSenders ch = 0 \<longrightarrow>
               (\<forall>x \<in> set (selectInvoke rm h ctx ch w). fst x = (Return None, h, w))) \<and>
            (0 < nextSenders ch \<longrightarrow>
               (invoke rm h (on_case Next ctx) w, taken Next ch) \<in> set (selectInvoke rm h ctx ch w) \<and>
               fst (invoke rm h (on_case Next ctx) w) \<noteq> Return None)) \<and>
         (selectInvoke rm h ctx ch w = [] \<longrightarrow>
            selectInvoke rm h ctx (ch\<lparr>ctxDone := True\<rparr>) w =
              [((Return None, h, w), ch\<lparr>ctxDone := True\<rparr>)])"
proof -
  have d: "invoke rm h (on_case CtxDone ctx) w = (Return None, h, w)"
    using assms by (auto simp add: on_case_def)
  have c: "invoke rm h (on_case CompleteSubscription ctx) w = (Return None, h, w)"
    using assms by (auto simp add: on_case_def)
  have n: "fst (invoke rm h (on_case Next ctx) w) \<noteq> Return None"
    using assms by (cases initialResponse) (auto simp add: on_case_def)
  have s: "selectInvoke rm h ctx ch w = [] \<longleftrightarrow>
      \<not> ctxDone ch \<and> nextSenders ch = 0 \<and> completeSenders ch = 0"
    by (simp add: selectInvoke_def selectable_def)
  show ?thesis
    using d c n s by (auto simp add: selectInvoke_def selectable_def)
qed

theorem cancellation_terminal_unless_trigger_pending_witness:
  "((Return None, SubscriptionHandler, emptyWorld),
      \<lparr>ctxDone = True, nextSenders = 2, completeSenders = 0\<rparr>)
     \<in> set (selectInvoke directMiddleware SubscriptionHandler subscriptionCtx
              \<lparr>ctxDone = True, nextSenders = 2, completeSenders = 0\<rparr> emptyWorld) \<and>
   selectInvoke directMiddleware (DeferHandler True) deferQueryCtx
     \<lparr>ctxDone = False, nextSenders = 0, completeSenders = 0\<rparr> emptyWorld = [] \<and>
   selectInvoke directMiddleware (DeferHandler True) deferQueryCtx
     \<lparr>ctxDone = True, nextSenders = 0, completeSenders = 0\<rparr> emptyWorld =
     [((Return None, DeferHandler True, emptyWorld),
       \<lparr>ctxDone = True, nextSenders = 0, completeSenders = 0\<rparr>)]"
proof -
  have e: "selectInvoke directMiddleware (DeferHandler True) deferQueryCtx
     \<lparr>ctxDone = False, nextSenders = 0, completeSenders = 0\<rparr> emptyWorld = []"
    by (simp add: selectInvoke_def selectable_def)
  show ?thesis
    using cancellation_terminal_unless_trigger_pending
        [of SubscriptionHandler True "\<lparr>ctxDone = True, nextSenders = 2, completeSenders = 0\<rparr>"
            emptyWorld directMiddleware subscriptionCtx]
      cancellation_terminal_unless_trigger_pending
        [of "DeferHandler True" True "\<lparr>ctxDone = False, nextSenders = 0, completeSenders = 0\<rparr>"
            emptyWorld directMiddleware deferQueryCtx]
      e
    by simp
qed

subsection \<open>Mutations and unsupported operations\<close>

text \<open>
  Claim C5: for a mutation, and for an operation that is neither a query, a mutation
  nor a subscription, the handler yields on its first invocation one envelope with
  exactly one error entry, and terminal on every later invocation; the two messages
  differ.
\<close>

theorem unsupported_operation_error_envelope:
  assumes "Operation (GetOperationContext ctx) \<noteq> Query"
      and "Operation (GetOperationContext ctx) \<noteq> Subscription"
  shows "fst (invocations rm (ExecFunc ctx) (i # is) w) =
       Return (Some \<lparr>Data = [], HasNext = None,
                      Errors = [\<lparr>Message = (if Operation (GetOperationContext ctx) = Mutation
                                            then ''mutations are not supported''
                                            else ''unsupported GraphQL operation''),
                                 Path = ctxFields ctx\<rparr>]\<rparr>)
         # replicate (length is) (Return None) \<and>
     ''mutations are not supported'' \<noteq> ''unsupported GraphQL operation''"
  using assms
  by (cases "Operation (GetOperationContext ctx)")
     (simp_all add: ExecFunc_def OneShot_def ErrorResponse_def oneShotHandler_def
        invocations_oneshot_done)

theorem unsupported_operation_error_envelope_witness:
  "fst (invocations directMiddleware (ExecFunc mutationCtx)
          [on_case Next mutationCtx, on_case Next mutationCtx] emptyWorld) =
     [Return (Some \<lparr>Data = [], HasNext = None,
                     Errors = [\<lparr>Message = ''mutations are not supported'', Path = []\<rparr>]\<rparr>),
      Return None] \<and>
   fst (invocations directMiddleware (ExecFunc otherCtx)
          [on_case Next otherCtx, on_case Next otherCtx] emptyWorld) =
     [Return (Some \<lparr>Data = [], HasNext = None,
                     Errors = [\<lparr>Message = ''unsupported GraphQL operation'', Path = []\<rparr>]\<rparr>),
      Return None]"
proof -
  have m: "Operation (GetOperationContext mutationCtx) = Mutation" "ctxFields mutationCtx = []"
    by (simp_all add: mutationCtx_def GetOperationContext_def)
  have o: "Operation (GetOperationContext otherCtx) = OtherOperation ''fragment''"
    "ctxFields otherCtx = []"
    by (simp_all add: otherCtx_def GetOperationContext_def)
  show ?thesis
    using unsupported_operation_error_envelope
         [of mutationCtx directMiddleware "on_case Next mutationCtx" "[on_case Next mutationCtx]" emptyWorld]
      unsupported_operation_error_envelope
         [of otherCtx directMiddleware "on_case Next otherCtx" "[on_case Next otherCtx]" emptyWorld]
    by (simp add: m o)
qed

subsection \<open>Selection of the handler\<close>

text \<open>
  Claim C6: the handler is chosen from the operation context alone. For a query it is
  the incremental handler exactly when the raw text contains \<^verbatim>\<open>@defer\<close>, and the
  single-shot handler otherwise; for a subscription it is the streaming handler.
\<close>

theorem strategy_selection:
  "(Operation (GetOperationContext ctx) = Query \<longrightarrow>
      ExecFunc ctx =
        (if \<exists>ps ss. RawQuery (GetOperationContext ctx) = ps @ ''@defer'' @ ss
         then DeferHandler True else QueryHandler False)) \<and>
   (Operation (GetOperationContext ctx) = Subscription \<longrightarrow> ExecFunc ctx = SubscriptionHandler) \<and>
   (GetOperationContext ctx = GetOperationContext ctx' \<and>
    (Operation (GetOperationContext ctx) = Query \<or> Operation (GetOperationContext ctx) = Subscription)
      \<longrightarrow> ExecFunc ctx = ExecFunc ctx')"
  by (auto simp add: ExecFunc_def Contains_occurs Let_def)

theorem strategy_selection_witness:
  "ExecFunc deferQueryCtx = DeferHandler True \<and>
   ExecFunc plainQueryCtx = QueryHandler False \<and>
   ExecFunc subscriptionCtx = SubscriptionHandler \<and>
   ExecFunc (subscriptionCtx\<lparr>ctxFields := [queryFieldContext]\<rparr>) = ExecFunc subscriptionCtx"
proof -
  have "ExecFunc deferQueryCtx = DeferHandler True"
    using strategy_selection [of deferQueryCtx] deferQueryCtx_marked
    by (simp add: deferQueryCtx_def GetOperationContext_def)
  moreover have "ExecFunc plainQueryCtx = QueryHandler False"
    using strategy_selection [of plainQueryCtx] plainQueryCtx_unmarked
    by (simp add: plainQueryCtx_def GetOperationContext_def)
  moreover have "ExecFunc subscriptionCtx = SubscriptionHandler"
    using strategy_selection [of subscriptionCtx]
    by (simp add: subscriptionCtx_def GetOperationContext_def)
  moreover have "ExecFunc (subscriptionCtx\<lparr>ctxFields := [queryFieldContext]\<rparr>) = ExecFunc subscriptionCtx"
    using strategy_selection [of "subscriptionCtx\<lparr>ctxFields := [queryFieldContext]\<rparr>" subscriptionCtx]
    by (auto simp add: subscriptionCtx_def GetOperationContext_def)
  ultimately show ?thesis by simp
qed

subsection \<open>The single-shot handler\<close>

text \<open>
  Claim C7, as the specification states it: for a query without \<^verbatim>\<open>@defer\<close>, two
  invocations yield one envelope with no \<open>HasNext\<close> and then terminal. It fails when
  the resolver middleware of the operation context does not hand the resolver's result
  through: the handler returns what the middleware returns, and panics on its error.
\<close>

theorem single_shot_middleware_counterexample:
  "fst (invocations failingMiddleware (ExecFunc plainQueryCtx)
          [on_case Next plainQueryCtx, on_case Next plainQueryCtx] emptyWorld) =
     [Panic ''field failed'', Return None] \<and>
   fst (invocations partialMiddleware (ExecFunc plainQueryCtx)
          [on_case Next plainQueryCtx, on_case Next plainQueryCtx] emptyWorld) =
     [Return (Some \<lparr>Data = dataNameNull, HasNext = Some True, Errors = []\<rparr>), Return None]"
  by (simp add: ExecFunc_def plainQueryCtx_def GetOperationContext_def on_case_def
        queryHandler_def failingMiddleware_def partialMiddleware_def)

text \<open>
  Claim C7, amended: for a query without \<^verbatim>\<open>@defer\<close>, the first invocation calls the
  resolver middleware once, in the context of the invocation with the field context
  pushed whose object is \<^verbatim>\<open>Query\<close> and whose field is \<^verbatim>\<open>name\<close>, and returns what
  the middleware returns: its response (terminal when that is nil), or a panic when it
  returns an error or a value that is no response. With the middleware that calls the
  resolver directly this is one envelope with the payload of the resolver and no
  \<open>HasNext\<close>. The second and every later invocation returns terminal and calls
  nothing, because \<^verbatim>\<open>ran\<close> is set by the first invocation and never reset: the
  world after any number of invocations is the world after the one call of the
  middleware.
\<close>

theorem single_shot_runs_once:
  assumes "Operation (GetOperationContext ctx) = Query"
      and "\<not> (\<exists>ps ss. RawQuery (GetOperationContext ctx) = ps @ ''@defer'' @ ss)"
  shows "fst (invoke rm (ExecFunc ctx) i w) =
           (case fst (rm (WithFieldContext (inCtx i) queryFieldContext) queryResolver w) of
              (res, Some err) \<Rightarrow> Panic err
            | (AnyResponse r, None) \<Rightarrow> Return r
            | (AnyOther, None) \<Rightarrow> Panic ''interface conversion'') \<and>
         tl (fst (invocations rm (ExecFunc ctx) (i # is) w)) = replicate (length is) (Return None) \<and>
         invocations directMiddleware (ExecFunc ctx) (i # is) w =
           (Return (Some \<lparr>Data = dataNameTest, HasNext = None, Errors = []\<rparr>)
              # replicate (length is) (Return None),
            QueryHandler True, w) \<and>
         snd (invocations rm (ExecFunc ctx) (i # is) w) =
           (QueryHandler True,
            snd (rm (WithFieldContext (inCtx i) queryFieldContext) queryResolver w)) \<and>
         ctxFields (WithFieldContext (inCtx i) queryFieldContext) = queryFieldContext # ctxFields (inCtx i) \<and>
         Object queryFieldContext = ''Query'' \<and>
         Name (Field queryFieldContext) = ''name'' \<and>
         invoke rm (QueryHandler True) i w = (Return None, QueryHandler True, w)"
proof -
  have h: "ExecFunc ctx = QueryHandler False"
    using assms by (simp add: ExecFunc_def Contains_occurs)
  have f: "fst (invoke rm (QueryHandler False) i w) =
           (case fst (rm (WithFieldContext (inCtx i) queryFieldContext) queryResolver w) of
              (res, Some err) \<Rightarrow> Panic err
            | (AnyResponse r, None) \<Rightarrow> Return r
            | (AnyOther, None) \<Rightarrow> Panic ''interface conversion'')"
    by (simp add: queryHandler_def split: prod.splits option.splits any.splits)
  have a: "invocations directMiddleware (QueryHandler False) (i # is) w =
           (Return (Some \<lparr>Data = dataNameTest, HasNext = None, Errors = []\<rparr>)
              # replicate (length is) (Return None),
            QueryHandler True, w)"
    by (simp add: queryHandler_def directMiddleware_def queryResolver_def invocations_query_ran)
  obtain r where r: "invoke rm (QueryHandler False) i w =
           (r, QueryHandler True,
            snd (rm (WithFieldContext (inCtx i) queryFieldContext) queryResolver w))"
    using invoke_query_first by blast
  then have b: "snd (invocations rm (QueryHandler False) (i # is) w) =
           (QueryHandler True,
            snd (rm (WithFieldContext (inCtx i) queryFieldContext) queryResolver w))"
    by (simp add: invocations_query_ran)
  have t: "tl (fst (invocations rm (QueryHandler False) (i # is) w)) = replicate (length is) (Return None)"
    using r by (simp add: invocations_query_ran)
  have c: "invoke rm (QueryHandler True) i w = (Return None, QueryHandler True, w)"
    by (simp add: queryHandler_def)
  show ?thesis
    using f a b c t by (simp add: h WithFieldContext_def queryFieldContext_def)
qed

theorem single_shot_runs_once_witness:
  "invocations directMiddleware (ExecFunc plainQueryCtx)
     [on_case Next plainQueryCtx, on_case Next plainQueryCtx] emptyWorld =
     ([Return (Some \<lparr>Data = dataNameTest, HasNext = None, Errors = []\<rparr>), Return None],
      QueryHandler True, emptyWorld) \<and>
   snd (invocations reportingMiddleware (ExecFunc plainQueryCtx)
     [on_case Next plainQueryCtx, on_case Next plainQueryCtx] emptyWorld) =
     (QueryHandler True,
      \<lparr>recorded = [\<lparr>Message = ''field error'', Path = [queryFieldContext]\<rparr>], outside = ()\<rparr>) \<and>
   fst (invoke failingMiddleware (ExecFunc plainQueryCtx) (on_case Next plainQueryCtx) emptyWorld) =
     Panic ''field failed''"
proof -
  have q: "Operation (GetOperationContext plainQueryCtx) = Query"
    by (simp add: plainQueryCtx_def GetOperationContext_def)
  have r: "snd (reportingMiddleware (WithFieldContext plainQueryCtx queryFieldContext) queryResolver emptyWorld) =
      \<lparr>recorded = [\<lparr>Message = ''field error'', Path = [queryFieldContext]\<rparr>], outside = ()\<rparr>"
    by (simp add: reportingMiddleware_def queryResolver_def AddError_def WithFieldContext_def
          plainQueryCtx_def emptyWorld_def)
  show ?thesis
    using single_shot_runs_once [OF q plainQueryCtx_unmarked,
        of reportingMiddleware "on_case Next plainQueryCtx" emptyWorld "[on_case Next plainQueryCtx]"] r
      single_shot_runs_once [OF q plainQueryCtx_unmarked,
        of failingMiddleware "on_case Next plainQueryCtx" emptyWorld "[on_case Next plainQueryCtx]"]
    by (simp add: on_case_def failingMiddleware_def)
qed

subsection \<open>Errors recorded through the side channel\<close>

text \<open>
  Claim C8: an error recorded through \<open>AddError\<close> while a handler runs is in the error
  list of the envelope that invocation delivers, next to the payload the handler
  returned. For the query handler of \<^verbatim>\<open>NewError\<close> the envelope carries the resolver
  error and the payload \<^verbatim>\<open>null\<close>, which the handler itself returns; for every handler
  the payload and \<open>HasNext\<close> of the delivered envelope are those the handler returned.
\<close>

theorem recorded_errors_merged:
  "(Operation (GetOperationContext ctx) = Query \<longrightarrow>
      respond rm (ExecFuncError ctx) i w =
        (Return (Some \<lparr>Data = dataNull, HasNext = None,
                        Errors = [\<lparr>Message = ''resolver error'', Path = ctxFields (inCtx i)\<rparr>]\<rparr>),
         ErrorQueryHandler True,
         w\<lparr>recorded := [\<lparr>Message = ''resolver error'', Path = ctxFields (inCtx i)\<rparr>]\<rparr>)) \<and>
   (invoke rm h i (w\<lparr>recorded := []\<rparr>) = (Return (Some resp), h', w') \<longrightarrow>
      respond rm h i w =
        (Return (Some \<lparr>Data = Data resp, HasNext = HasNext resp,
                        Errors = Errors resp @ recorded w'\<rparr>), h', w'))"
  by (simp add: respond_def ExecFuncError_def errorQueryHandler_def AddError_def mergeErrors_def)

theorem recorded_errors_merged_witness:
  "respond directMiddleware (ExecFuncError plainQueryCtx) (on_case Next plainQueryCtx) emptyWorld =
     (Return (Some \<lparr>Data = dataNull, HasNext = None,
                     Errors = [\<lparr>Message = ''resolver error'', Path = []\<rparr>]\<rparr>),
      ErrorQueryHandler True,
      \<lparr>recorded = [\<lparr>Message = ''resolver error'', Path = []\<rparr>], outside = ()\<rparr>) \<and>
   respond reportingMiddleware (ExecFunc plainQueryCtx) (on_case Next plainQueryCtx) emptyWorld =
     (Return (Some \<lparr>Data = dataNameTest, HasNext = None,
                     Errors = [\<lparr>Message = ''field error'', Path = [queryFieldContext]\<rparr>]\<rparr>),
      QueryHandler True,
      \<lparr>recorded = [\<lparr>Message = ''field error'', Path = [queryFieldContext]\<rparr>], outside = ()\<rparr>)"
proof -
  have q: "Operation (GetOperationContext plainQueryCtx) = Query" "ctxFields plainQueryCtx = []"
    by (simp_all add: plainQueryCtx_def GetOperationContext_def)
  have e: "ExecFunc plainQueryCtx = QueryHandler False"
    by (simp add: ExecFunc_def plainQueryCtx_def GetOperationContext_def)
  have i: "invoke reportingMiddleware (ExecFunc plainQueryCtx) (on_case Next plainQueryCtx)
             (emptyWorld\<lparr>recorded := []\<rparr>) =
           (Return (Some \<lparr>Data = dataNameTest, HasNext = None, Errors = []\<rparr>), QueryHandler True,
            \<lparr>recorded = [\<lparr>Message = ''field error'', Path = [queryFieldContext]\<rparr>], outside = ()\<rparr>)"
    by (simp add: e queryHandler_def reportingMiddleware_def queryResolver_def AddError_def
          WithFieldContext_def on_case_def emptyWorld_def q)
  show ?thesis
    using recorded_errors_merged [of plainQueryCtx directMiddleware "on_case Next plainQueryCtx" emptyWorld]
      recorded_errors_merged [of plainQueryCtx reportingMiddleware "on_case Next plainQueryCtx" emptyWorld
         "ExecFunc plainQueryCtx" "\<lparr>Data = dataNameTest, HasNext = None, Errors = []\<rparr>" "QueryHandler True"
         "\<lparr>recorded = [\<lparr>Message = ''field error'', Path = [queryFieldContext]\<rparr>], outside = ()\<rparr>"]
      i q
    by (simp add: on_case_def emptyWorld_def)
qed

subsection \<open>Complexity\<close>

text \<open>
  Claim C10: the complexity function of the test server ignores all of its arguments.
  It returns the value last set through \<^verbatim>\<open>SetCalculatedComplexity\<close>, or 0 when none
  was set, together with \<open>True\<close>; two calls on the same server return the same pair.
\<close>

theorem complexity_ignores_arguments:
  "ComplexityFunc New ctx typeName fieldName childComplexity args = (0, True) \<and>
   ComplexityFunc (SetCalculatedComplexity s c) ctx typeName fieldName childComplexity args = (c, True) \<and>
   ComplexityFunc (foldl SetCalculatedComplexity New cs) ctx typeName fieldName childComplexity args
     = (last (0 # cs), True) \<and>
   ComplexityFunc s ctx typeName fieldName childComplexity args
     = ComplexityFunc s ctx' typeName' fieldName' childComplexity' args'"
proof -
  have "complexity (foldl SetCalculatedComplexity t cs) = last (complexity t # cs)" for t
    by (induction cs arbitrary: t) (simp_all add: SetCalculatedComplexity_def)
  then show ?thesis
    by (simp add: ComplexityFunc_def New_def SetCalculatedComplexity_def)
qed

theorem complexity_ignores_arguments_witness:
  "ComplexityFunc (SetCalculatedComplexity (SetCalculatedComplexity New 3) 7)
     plainQueryCtx ''Query'' ''name'' 1 Map.empty = (7, True) \<and>
   ComplexityFunc (SetCalculatedComplexity (SetCalculatedComplexity New 3) 7)
     plainQueryCtx ''Query'' ''find'' 100 [''id'' \<mapsto> AnyOther] = (7, True) \<and>
   ComplexityFunc New subscriptionCtx ''Subscription'' ''name'' 5 Map.empty = (0, True)"
  using complexity_ignores_arguments
      [of plainQueryCtx "''Query''" "''name''" 1 Map.empty New 0 "[3, 7]"]
    complexity_ignores_arguments
      [of plainQueryCtx "''Query''" "''find''" 100 "[''id'' \<mapsto> AnyOther]" New 0 "[3, 7]"]
    complexity_ignores_arguments
      [of subscriptionCtx "''Subscription''" "''name''" 5 Map.empty New 0 "[]"]
  by simp

end
